theory Spec2Isabelle
  imports Main "HOL-Library.Word"
begin

unbundle bit_operations_syntax

section \<open>The IBM Common FRU Access Macro (hw/fsi/cfam.c)\<close>

text \<open>
  A shallow embedding of the register-level model in \<^verbatim>\<open>hw/fsi/cfam.c\<close>: the
  configuration region, the fallback handlers of the 2 MiB window and the scratchpad
  engine. The trace calls of the source only log and are left out.
\<close>

subsection \<open>Machine types\<close>

text \<open>
  \<^verbatim>\<open>hwaddr\<close> and the handlers' data are \<^verbatim>\<open>uint64_t\<close>, the access size is
  \<^verbatim>\<open>unsigned\<close>, the loop counter of the table walk is \<^verbatim>\<open>int\<close>.
\<close>

type_synonym hwaddr = "64 word"
type_synonym u64 = "64 word"
type_synonym u32 = "32 word"
type_synonym c_int = "32 word"
type_synonym c_unsigned = "32 word"

subsection \<open>Constants\<close>

text \<open>
  \<^verbatim>\<open>ENGINE_CONFIG_NEXT\<close> is \<^verbatim>\<open>BE_BIT(0)\<close>. The macro \<^verbatim>\<open>BE_BIT\<close> is declared in a
  header outside this file, so the value of \<^verbatim>\<open>ENGINE_CONFIG_NEXT\<close>, converted to
  \<^verbatim>\<open>uint64_t\<close>, is a parameter \<open>nx\<close> of every definition that uses it.
\<close>

definition ENGINE_CONFIG_TYPE_PEEK :: u64 where
  "ENGINE_CONFIG_TYPE_PEEK = push_bit 4 0x02"

definition ENGINE_CONFIG_TYPE_FSI :: u64 where
  "ENGINE_CONFIG_TYPE_FSI = push_bit 4 0x03"

definition ENGINE_CONFIG_TYPE_SCRATCHPAD :: u64 where
  "ENGINE_CONFIG_TYPE_SCRATCHPAD = push_bit 4 0x06"

definition TO_REG :: "hwaddr \<Rightarrow> hwaddr" where
  "TO_REG x = drop_bit 2 x"

definition CFAM_ENGINE_CONFIG :: hwaddr where
  "CFAM_ENGINE_CONFIG = TO_REG 0x04"

definition CFAM_CONFIG_CHIP_ID :: hwaddr where
  "CFAM_CONFIG_CHIP_ID = TO_REG 0x00"

definition CFAM_CONFIG_CHIP_ID_P9 :: u64 where
  "CFAM_CONFIG_CHIP_ID_P9 = 0xc0022d15"

definition CFAM_CONFIG_CHIP_ID_BREAK :: u64 where
  "CFAM_CONFIG_CHIP_ID_BREAK = 0xc0de0000"

subsection \<open>Devices, classes and the state of the CFAM\<close>

text \<open>
  The structure declarations live in headers outside this file; the records below have
  the fields that the code of \<^verbatim>\<open>cfam.c\<close> reads and writes.
\<close>

text \<open>
  Modelled from the spec: the width of the field \<^verbatim>\<open>reg\<close> of \<^verbatim>\<open>FSIScratchPad\<close>, whose
  declaration is missing. The spec: "one mutable 32-bit word per Scratchpad engine
  instance".
\<close>

record FSIScratchPad =
  reg :: u32

text \<open>
  Modelled from the spec: the width of the field \<^verbatim>\<open>config\<close>, whose declaration is
  missing. The spec: the descriptor word is a "32-bit value". The record is the class of
  an engine, \<^verbatim>\<open>DeviceClass.reset\<close> and \<^verbatim>\<open>FSILBusDeviceClass.config\<close>; the type \<open>'s\<close> is
  the instance state of the engines of that class.
\<close>

record 's FSILBusDeviceClass =
  reset :: "'s \<Rightarrow> 's"
  config :: u32

text \<open>An engine other than the CFAM's own scratchpad: its class and its instance state.\<close>

record 's FSILBusDevice =
  klass :: "'s FSILBusDeviceClass"
  inst :: 's

text \<open>
  \<^verbatim>\<open>kid->child\<close> of a \<^verbatim>\<open>BusChild\<close> is a pointer to a device: either to the scratchpad
  embedded in the CFAM (\<^verbatim>\<open>&cfam->scratchpad\<close>), or to some other engine on the bus.
\<close>

datatype 's BusChild =
    Child_scratchpad
  | Child_device "'s FSILBusDevice"

text \<open>
  \<^verbatim>\<open>FSICFAMState\<close>: the embedded scratchpad, the class object of its type, and the
  children of the local bus \<^verbatim>\<open>lbus.bus.children\<close> in the order \<^verbatim>\<open>QTAILQ_FOREACH\<close>
  walks them.
\<close>

record 's FSICFAMState =
  scratchpad_class :: "FSIScratchPad FSILBusDeviceClass"
  scratchpad :: FSIScratchPad
  children :: "'s BusChild list"

subsection \<open>The scratchpad engine\<close>

definition fsi_scratchpad_read :: "FSIScratchPad \<Rightarrow> hwaddr \<Rightarrow> c_unsigned \<Rightarrow> u64" where
  "fsi_scratchpad_read s addr sz = (if addr \<noteq> 0 then 0 else ucast (reg s))"

definition fsi_scratchpad_write ::
  "FSIScratchPad \<Rightarrow> hwaddr \<Rightarrow> u64 \<Rightarrow> c_unsigned \<Rightarrow> FSIScratchPad" where
  "fsi_scratchpad_write s addr data sz = (if addr \<noteq> 0 then s else s\<lparr>reg := ucast data\<rparr>)"

definition fsi_scratchpad_reset :: "FSIScratchPad \<Rightarrow> FSIScratchPad" where
  "fsi_scratchpad_reset s = s\<lparr>reg := 0\<rparr>"

definition fsi_scratchpad_class_init :: "u64 \<Rightarrow> FSIScratchPad FSILBusDeviceClass" where
  "fsi_scratchpad_class_init nx =
     \<lparr>reset = fsi_scratchpad_reset,
      config = ucast (nx OR 0x00010000 OR 0x00001000 OR ENGINE_CONFIG_TYPE_SCRATCHPAD
                         OR 0x00000007)\<rparr>"

subsection \<open>The configuration region\<close>

text \<open>\<^verbatim>\<open>FSI_LBUS_DEVICE_GET_CLASS(dev)->config\<close> for the device a bus child points to.\<close>

fun lbus_device_config :: "'s FSICFAMState \<Rightarrow> 's BusChild \<Rightarrow> u32" where
  "lbus_device_config cfam Child_scratchpad = config (scratchpad_class cfam)"
| "lbus_device_config cfam (Child_device d) = config (klass d)"

text \<open>
  The \<^verbatim>\<open>QTAILQ_FOREACH\<close> loop of the default case and the two returns after it. The
  counter \<open>i\<close> is an \<^verbatim>\<open>int\<close>: \<^verbatim>\<open>i == addr\<close> compares it sign-extended to 64 bits, and
  \<^verbatim>\<open>i += size\<close> wraps at 32 bits.
\<close>

fun config_table_walk ::
  "'s FSICFAMState \<Rightarrow> 's BusChild list \<Rightarrow> c_int \<Rightarrow> hwaddr \<Rightarrow> c_unsigned \<Rightarrow> u64" where
  "config_table_walk cfam [] i addr sz =
     (if scast i = addr then 0 else CFAM_CONFIG_CHIP_ID_BREAK)"
| "config_table_walk cfam (kid # kids) i addr sz =
     (if scast i = addr then ucast (lbus_device_config cfam kid)
      else config_table_walk cfam kids (i + sz) addr sz)"

definition fsi_cfam_config_read ::
  "u64 \<Rightarrow> 's FSICFAMState \<Rightarrow> hwaddr \<Rightarrow> c_unsigned \<Rightarrow> u64" where
  "fsi_cfam_config_read nx cfam addr sz =
     (if addr = 0x00 then CFAM_CONFIG_CHIP_ID_P9
      else if addr = 0x04 then
        nx OR 0x00010000 OR 0x00001000 OR ENGINE_CONFIG_TYPE_PEEK OR 0x0000000c
      else if addr = 0x08 then
        nx OR 0x00010000 OR 0x00005000 OR ENGINE_CONFIG_TYPE_FSI OR 0x0000000a
      else config_table_walk cfam (children cfam) 0xc addr sz)"

text \<open>
  Modelled from the spec: the reset of one child of the bus, a step of \<^verbatim>\<open>bus_cold_reset\<close>
  below. An engine other than the embedded scratchpad is reset by the reset handler of
  its class; the child that points to the embedded scratchpad stays the same pointer.
\<close>

fun device_reset :: "'s BusChild \<Rightarrow> 's BusChild" where
  "device_reset Child_scratchpad = Child_scratchpad"
| "device_reset (Child_device d) = Child_device (d\<lparr>inst := reset (klass d) (inst d)\<rparr>)"

text \<open>Whether a bus child points to the embedded scratchpad.\<close>

fun is_scratchpad :: "'s BusChild \<Rightarrow> bool" where
  "is_scratchpad Child_scratchpad = True"
| "is_scratchpad (Child_device d) = False"

text \<open>
  Modelled from the spec: \<^verbatim>\<open>bus_cold_reset\<close> belongs to the device framework and is not
  part of this file. The spec gives it as "\<^verbatim>\<open>cold_reset()\<close> broadcasts a reset to every
  attached engine": each child of the bus is reset by the reset handler of its class,
  the scratchpad of the CFAM when it is among the children.
\<close>

definition bus_cold_reset :: "'s FSICFAMState \<Rightarrow> 's FSICFAMState" where
  "bus_cold_reset cfam =
     cfam\<lparr>scratchpad :=
             (if list_ex is_scratchpad (children cfam)
              then reset (scratchpad_class cfam) (scratchpad cfam)
              else scratchpad cfam),
          children := map device_reset (children cfam)\<rparr>"

definition fsi_cfam_config_write ::
  "'s FSICFAMState \<Rightarrow> hwaddr \<Rightarrow> u64 \<Rightarrow> c_unsigned \<Rightarrow> 's FSICFAMState" where
  "fsi_cfam_config_write cfam addr data sz =
     (if TO_REG addr = CFAM_CONFIG_CHIP_ID \<or> TO_REG addr = CFAM_CONFIG_CHIP_ID + 4 then
        (if data = CFAM_CONFIG_CHIP_ID_BREAK then bus_cold_reset cfam else cfam)
      else cfam)"

subsection \<open>The fallback handlers of the 2 MiB window\<close>

definition fsi_cfam_unimplemented_read :: "hwaddr \<Rightarrow> c_unsigned \<Rightarrow> u64" where
  "fsi_cfam_unimplemented_read addr sz = 0"

definition fsi_cfam_unimplemented_write ::
  "'s FSICFAMState \<Rightarrow> hwaddr \<Rightarrow> u64 \<Rightarrow> c_unsigned \<Rightarrow> 's FSICFAMState" where
  "fsi_cfam_unimplemented_write cfam addr data sz = cfam"

subsection \<open>Construction\<close>

text \<open>
  Modelled from the spec: the value of the register of a fresh scratchpad, which the
  object framework sets outside this file. The spec: "initial value 0". For the rest,
  \<^verbatim>\<open>fsi_cfam_instance_init\<close> creates the embedded scratchpad as an object of its type,
  which gives it the class that \<^verbatim>\<open>fsi_scratchpad_class_init\<close> filled in.
\<close>

definition fsi_cfam_instance_init :: "u64 \<Rightarrow> 's FSICFAMState" where
  "fsi_cfam_instance_init nx =
     \<lparr>scratchpad_class = fsi_scratchpad_class_init nx,
      scratchpad = \<lparr>reg = 0\<rparr>,
      children = []\<rparr>"

text \<open>
  \<^verbatim>\<open>fsi_cfam_realize\<close>: \<^verbatim>\<open>qbus_init\<close> starts the local bus with no children, then
  \<^verbatim>\<open>qdev_realize_and_unref\<close> puts the scratchpad on it. Its result is the parameter
  \<open>attached\<close>; when it fails the function returns early and construction fails.
\<close>

definition fsi_cfam_realize :: "bool \<Rightarrow> 's FSICFAMState \<Rightarrow> 's FSICFAMState option" where
  "fsi_cfam_realize attached cfam =
     (if \<not> attached then None
      else Some (cfam\<lparr>children := [Child_scratchpad]\<rparr>))"

subsection \<open>Handler calls and their effect on the state\<close>

text \<open>
  One constructor for each callback of the three \<^verbatim>\<open>MemoryRegionOps\<close> tables of the
  file. A read handler returns a value and assigns nothing; a write handler returns
  nothing.
\<close>

datatype handler_call =
    Config_read hwaddr c_unsigned
  | Config_write hwaddr u64 c_unsigned
  | Unimplemented_read hwaddr c_unsigned
  | Unimplemented_write hwaddr u64 c_unsigned
  | Scratchpad_read hwaddr c_unsigned
  | Scratchpad_write hwaddr u64 c_unsigned

fun exec :: "u64 \<Rightarrow> handler_call \<Rightarrow> 's FSICFAMState \<Rightarrow> u64 option \<times> 's FSICFAMState" where
  "exec nx (Config_read addr sz) cfam = (Some (fsi_cfam_config_read nx cfam addr sz), cfam)"
| "exec nx (Config_write addr data sz) cfam = (None, fsi_cfam_config_write cfam addr data sz)"
| "exec nx (Unimplemented_read addr sz) cfam = (Some (fsi_cfam_unimplemented_read addr sz), cfam)"
| "exec nx (Unimplemented_write addr data sz) cfam =
     (None, fsi_cfam_unimplemented_write cfam addr data sz)"
| "exec nx (Scratchpad_read addr sz) cfam =
     (Some (fsi_scratchpad_read (scratchpad cfam) addr sz), cfam)"
| "exec nx (Scratchpad_write addr data sz) cfam =
     (None, cfam\<lparr>scratchpad := fsi_scratchpad_write (scratchpad cfam) addr data sz\<rparr>)"

text \<open>A sequence of handler calls, in the order the caller issues them.\<close>

fun run :: "u64 \<Rightarrow> handler_call list \<Rightarrow> 's FSICFAMState \<Rightarrow> 's FSICFAMState" where
  "run nx [] cfam = cfam"
| "run nx (c # cs) cfam = run nx cs (snd (exec nx c cfam))"

text \<open>
  The calls that overwrite or clear the scratchpad register: a write to its offset 0, and
  a configuration write that takes the reset branch.
\<close>

fun clobbers_scratchpad :: "handler_call \<Rightarrow> bool" where
  "clobbers_scratchpad (Scratchpad_write addr data sz) = (addr = 0)"
| "clobbers_scratchpad (Config_write addr data sz) =
     ((TO_REG addr = CFAM_CONFIG_CHIP_ID \<or> TO_REG addr = CFAM_CONFIG_CHIP_ID + 4)
      \<and> data = CFAM_CONFIG_CHIP_ID_BREAK)"
| "clobbers_scratchpad c = False"

subsection \<open>The 2 MiB window\<close>

text \<open>
  Modelled from the spec: the routing of an access to a region is done by the memory
  framework, outside this file. \<^verbatim>\<open>fsi_cfam_realize\<close> gives the window 2 MiB with the
  fallback handlers, and puts the configuration region (0x400 bytes) at 0, the
  primary-slave window at 0x800 and the local bus region at 0xc00; the widths \<open>W\<close> and
  \<open>X\<close> of the last two are set outside this file. The spec: "All addresses not claimed
  by a subregion return 0 on read and are ignored on write", with the subregions
  \<open>[0, 0x400)\<close>, \<open>[0x800, 0x800 + W)\<close> and \<open>[0xC00, 0xC00 + X)\<close>. The scratchpad's
  window of 0x400 bytes (\<^verbatim>\<open>fsi_scratchpad_realize\<close>) sits at offset 0 of the local bus
  region. What an access does in the primary-slave window, in the local bus region past
  the scratchpad and beyond the 2 MiB is not determined by this file (\<open>None\<close>).
\<close>

datatype region = To_config hwaddr | To_slave hwaddr | To_lbus hwaddr | To_unimplemented hwaddr

definition cfam_route :: "nat \<Rightarrow> nat \<Rightarrow> hwaddr \<Rightarrow> region option" where
  "cfam_route W X a =
     (if 2 * 1024 * 1024 \<le> unat a then None
      else if unat a < 0x400 then Some (To_config a)
      else if 0x800 \<le> unat a \<and> unat a < 0x800 + W then Some (To_slave (a - 0x800))
      else if 0xc00 \<le> unat a \<and> unat a < 0xc00 + X then Some (To_lbus (a - 0xc00))
      else Some (To_unimplemented a))"

text \<open>\<^verbatim>\<open>cfam_config_ops\<close> accepts accesses of 4 bytes only.\<close>

definition cfam_config_ops_valid :: "c_unsigned \<Rightarrow> bool" where
  "cfam_config_ops_valid sz = (4 \<le> sz \<and> sz \<le> 4)"

text \<open>
  Modelled from the spec: the handler that the memory framework calls for an access
  routed to a region; the scratchpad's window is the first 0x400 bytes of the local bus
  region.
\<close>

fun read_call :: "region \<Rightarrow> c_unsigned \<Rightarrow> handler_call option" where
  "read_call (To_config off) sz =
     (if cfam_config_ops_valid sz then Some (Config_read off sz) else None)"
| "read_call (To_slave off) sz = None"
| "read_call (To_lbus off) sz =
     (if unat off < 0x400 then Some (Scratchpad_read off sz) else None)"
| "read_call (To_unimplemented off) sz = Some (Unimplemented_read off sz)"

fun write_call :: "region \<Rightarrow> u64 \<Rightarrow> c_unsigned \<Rightarrow> handler_call option" where
  "write_call (To_config off) data sz =
     (if cfam_config_ops_valid sz then Some (Config_write off data sz) else None)"
| "write_call (To_slave off) data sz = None"
| "write_call (To_lbus off) data sz =
     (if unat off < 0x400 then Some (Scratchpad_write off data sz) else None)"
| "write_call (To_unimplemented off) data sz = Some (Unimplemented_write off data sz)"

text \<open>
  Modelled from the spec: a read and a write at byte offset \<open>a\<close> of the window, routed
  as above and carried out by the handler of this file that serves the region.
\<close>

definition cfam_read ::
  "u64 \<Rightarrow> nat \<Rightarrow> nat \<Rightarrow> 's FSICFAMState \<Rightarrow> hwaddr \<Rightarrow> c_unsigned
     \<Rightarrow> (u64 option \<times> 's FSICFAMState) option" where
  "cfam_read nx W X cfam a sz =
     (case cfam_route W X a of
        None \<Rightarrow> None
      | Some r \<Rightarrow> map_option (\<lambda>c. exec nx c cfam) (read_call r sz))"

definition cfam_write ::
  "u64 \<Rightarrow> nat \<Rightarrow> nat \<Rightarrow> 's FSICFAMState \<Rightarrow> hwaddr \<Rightarrow> u64 \<Rightarrow> c_unsigned
     \<Rightarrow> (u64 option \<times> 's FSICFAMState) option" where
  "cfam_write nx W X cfam a data sz =
     (case cfam_route W X a of
        None \<Rightarrow> None
      | Some r \<Rightarrow> map_option (\<lambda>c. exec nx c cfam) (write_call r data sz))"

subsection \<open>What identifies an engine on the bus\<close>

text \<open>
  The class of the device a bus child points to, for an engine other than the embedded
  scratchpad (whose class is \<open>scratchpad_class\<close> of the state): the part of a child that
  is not its instance state.
\<close>

fun engine_class_of :: "'s BusChild \<Rightarrow> 's FSILBusDeviceClass option" where
  "engine_class_of Child_scratchpad = None"
| "engine_class_of (Child_device d) = Some (klass d)"

section \<open>Properties\<close>

subsection \<open>Comparing the \<^verbatim>\<open>int\<close> counter with a 64-bit address\<close>

lemma not_bit31: "unat (i::32 word) < 2^31 \<Longrightarrow> \<not> bit i 31"
proof -
  assume a: "unat i < 2^31"
  have "bit i 31 = bit (unat i) 31" by (simp add: bit_unsigned_iff)
  also have "\<dots> = odd (unat i div 2^31)" by (simp only: bit_nat_def)
  also have "\<dots> = False" using a by simp
  finally show ?thesis by simp
qed

lemma scast_is_ucast:
  assumes "unat (i::32 word) < 2^31"
  shows "(scast i :: 64 word) = ucast i"
proof -
  have nb: "\<not> bit i 31" using assms by (rule not_bit31)
  show ?thesis
    by (rule bit_word_eqI) (use nb in \<open>auto simp add: bit_word_scast_iff bit_ucast_iff\<close>)
qed

lemma trunc_scast: "(ucast (scast (i::32 word) :: 64 word) :: 32 word) = i"
proof -
  have d: "is_down (ucast :: 64 word \<Rightarrow> 32 word)" by (simp add: is_down)
  have "(ucast (scast i :: 64 word) :: 32 word) = scast (scast i :: 64 word)"
    using down_cast_same [OF d] by simp
  also have "\<dots> = i" using d by (rule scast_down_scast_id)
  finally show ?thesis .
qed

lemma scast_eq_small:
  assumes "unat (addr::64 word) < 2^31"
  shows "(scast (i::32 word) = addr) = (unat i = unat addr)"
proof
  assume "scast i = addr"
  then have "i = ucast addr" using trunc_scast [of i] by simp
  then have "unat i = take_bit 32 (unat addr)" by (simp add: unsigned_ucast_eq)
  also have "\<dots> = unat addr" using assms by (simp add: take_bit_nat_eq_self)
  finally show "unat i = unat addr" .
next
  assume e: "unat i = unat addr"
  then have "unat i < 2^31" using assms by simp
  then have "(scast i :: 64 word) = ucast i" by (rule scast_is_ucast)
  moreover have "unat (ucast i :: 64 word) = unat addr"
    using e unsigned_less [of i, where 'a = nat] by (simp add: unsigned_ucast_eq take_bit_nat_eq_self)
  ultimately show "scast i = addr" by (simp add: word_unat_eq_iff)
qed


lemma unat_plus4_mod4: "unat ((i::32 word) + 4) mod 4 = unat i mod 4"
  by (simp add: unat_word_ariths mod_mod_cancel)

lemma unat_plus4: "unat (i::32 word) < 2^31 \<Longrightarrow> unat (i + 4) = unat i + 4"
  by (simp add: unat_word_ariths)

lemma walk_misaligned:
  assumes "unat addr < 2^31" "unat i mod 4 \<noteq> unat addr mod 4"
  shows "config_table_walk cfam kids i addr 4 = CFAM_CONFIG_CHIP_ID_BREAK"
  using assms(2)
proof (induction kids arbitrary: i)
  case Nil
  then have "unat i \<noteq> unat addr" by auto
  then show ?case using scast_eq_small [OF assms(1), of i] by simp
next
  case (Cons kid kids)
  then have "unat i \<noteq> unat addr" by auto
  then have ne: "scast i \<noteq> addr" using scast_eq_small [OF assms(1), of i] by simp
  have "unat (i + 4) mod 4 \<noteq> unat addr mod 4"
    using Cons.prems unat_plus4_mod4 [of i] by simp
  then have "config_table_walk cfam kids (i + 4) addr 4 = CFAM_CONFIG_CHIP_ID_BREAK"
    by (rule Cons.IH)
  then show ?case using ne by simp
qed

lemma walk_aligned:
  assumes "unat addr < 2^31" "unat i + 4 * k = unat addr"
  shows "config_table_walk cfam kids i addr 4 =
     (if k < length kids then ucast (lbus_device_config cfam (kids ! k))
      else if k = length kids then 0 else CFAM_CONFIG_CHIP_ID_BREAK)"
  using assms(2)
proof (induction kids arbitrary: i k)
  case Nil
  have "(scast i = addr) = (k = 0)"
    using Nil scast_eq_small [OF assms(1), of i] by auto
  then show ?case by simp
next
  case (Cons kid kids)
  show ?case
  proof (cases k)
    case 0
    then have "scast i = addr" using Cons.prems scast_eq_small [OF assms(1), of i] by simp
    then show ?thesis using 0 by simp
  next
    case (Suc k')
    then have ne: "scast i \<noteq> addr"
      using Cons.prems scast_eq_small [OF assms(1), of i] by auto
    have lt: "unat i < 2^31" using Cons.prems assms(1) by linarith
    have "unat (i + 4) + 4 * k' = unat addr"
      using Cons.prems Suc unat_plus4 [OF lt] by simp
    then have "config_table_walk cfam kids (i + 4) addr 4 =
        (if k' < length kids then ucast (lbus_device_config cfam (kids ! k'))
         else if k' = length kids then 0 else CFAM_CONFIG_CHIP_ID_BREAK)"
      by (rule Cons.IH)
    then show ?thesis using ne Suc by simp
  qed
qed

subsection \<open>The engine table of the configuration region\<close>

lemma config_read_default_case:
  assumes "0xC \<le> unat addr"
  shows "fsi_cfam_config_read nx cfam addr sz = config_table_walk cfam (children cfam) 0xc addr sz"
proof -
  have "addr \<noteq> 0" "addr \<noteq> 4" "addr \<noteq> 8" using assms by auto
  then show ?thesis by (simp add: fsi_cfam_config_read_def)
qed

lemma realize_default:
  "fsi_cfam_realize True (fsi_cfam_instance_init nx) =
     Some \<lparr>scratchpad_class = fsi_scratchpad_class_init nx, scratchpad = \<lparr>reg = 0\<rparr>,
           children = [Child_scratchpad]\<rparr>"
  by (simp add: fsi_cfam_realize_def fsi_cfam_instance_init_def)

lemma aligned_offset:
  assumes "0xC \<le> (n::nat)" "n mod 4 = 0"
  shows "\<exists>k. n = 0xC + 4 * k"
proof -
  have "n = 0xC + 4 * ((n - 0xC) div 4)" using assms by presburger
  then show ?thesis ..
qed

lemma config_read_default_cfam: "\<exists>cfam0. fsi_cfam_realize True (fsi_cfam_instance_init nx) = Some cfam0
            \<and> fsi_cfam_config_read nx cfam0 0x0C 4 = ucast (config (fsi_scratchpad_class_init nx))
            \<and> fsi_cfam_config_read nx cfam0 0x10 4 = 0
            \<and> fsi_cfam_config_read nx cfam0 0x14 4 = CFAM_CONFIG_CHIP_ID_BREAK"
    by (simp add: realize_default fsi_cfam_config_read_def CFAM_CONFIG_CHIP_ID_BREAK_def)

lemma lbus_device_config_cases:
  "lbus_device_config cfam kid =
     (case kid of Child_scratchpad \<Rightarrow> config (scratchpad_class cfam)
      | Child_device d \<Rightarrow> config (klass d))"
  by (cases kid) simp_all

text \<open>
  C1. A 4-byte read of the configuration region at a byte address \<open>addr\<close> from 0x0C on
  (below 0x400, the size of the region) walks the children of the local bus in list order
  and gives them the addresses 0x0C, 0x10, ... with stride 4. When \<open>addr\<close> is the address
  of the \<open>k\<close>-th engine the read returns the descriptor word of that engine's class, zero
  extended: the word \<open>config\<close> of the class of the device when the child is some other
  engine, the word \<open>config\<close> of the scratchpad's class when the child is the embedded
  scratchpad. When it is the address right after the last engine it returns 0; any other
  address returns the break sentinel. This holds for every list of children. A CFAM as constructed, with
  the scratchpad as its only engine, reads the scratchpad descriptor at 0x0C, 0 at 0x10
  and the break sentinel at 0x14.
\<close>

theorem config_read_engine_table:
  assumes "0xC \<le> unat addr" and "unat addr < 0x400"
  shows "(\<forall>k<length (children cfam). unat addr = 0xC + 4 * k \<longrightarrow>
            fsi_cfam_config_read nx cfam addr 4 =
              (case children cfam ! k of
                 Child_scratchpad \<Rightarrow> ucast (config (scratchpad_class cfam))
               | Child_device d \<Rightarrow> ucast (config (klass d))))
       \<and> (unat addr = 0xC + 4 * length (children cfam) \<longrightarrow>
            fsi_cfam_config_read nx cfam addr 4 = 0)
       \<and> ((\<forall>k\<le>length (children cfam). unat addr \<noteq> 0xC + 4 * k) \<longrightarrow>
            fsi_cfam_config_read nx cfam addr 4 = CFAM_CONFIG_CHIP_ID_BREAK)
       \<and> (\<exists>cfam0. fsi_cfam_realize True (fsi_cfam_instance_init nx) = Some cfam0
            \<and> fsi_cfam_config_read nx cfam0 0x0C 4 = ucast (config (fsi_scratchpad_class_init nx))
            \<and> fsi_cfam_config_read nx cfam0 0x10 4 = 0
            \<and> fsi_cfam_config_read nx cfam0 0x14 4 = CFAM_CONFIG_CHIP_ID_BREAK)"
proof -
  let ?kids = "children cfam"
  have small: "unat addr < 2^31" using assms(2) by simp
  have rd: "fsi_cfam_config_read nx cfam addr 4 = config_table_walk cfam ?kids 0xc addr 4"
    using assms(1) by (rule config_read_default_case)
  have al: "fsi_cfam_config_read nx cfam addr 4 =
       (if k < length ?kids then ucast (lbus_device_config cfam (?kids ! k))
        else if k = length ?kids then 0 else CFAM_CONFIG_CHIP_ID_BREAK)"
    if "unat addr = 0xC + 4 * k" for k
  proof -
    have "unat (0xc :: c_int) + 4 * k = unat addr" using that by simp
    then show ?thesis unfolding rd by (rule walk_aligned [OF small])
  qed
  have engine: "fsi_cfam_config_read nx cfam addr 4 =
       (case ?kids ! k of
          Child_scratchpad \<Rightarrow> ucast (config (scratchpad_class cfam))
        | Child_device d \<Rightarrow> ucast (config (klass d)))"
    if "k < length ?kids" "unat addr = 0xC + 4 * k" for k
  proof -
    have "fsi_cfam_config_read nx cfam addr 4 = ucast (lbus_device_config cfam (?kids ! k))"
      using al [OF that(2)] that(1) by simp
    then show ?thesis
      by (cases "?kids ! k") (simp_all add: lbus_device_config_cases)
  qed
  have marker: "fsi_cfam_config_read nx cfam addr 4 = 0"
    if "unat addr = 0xC + 4 * length ?kids"
    using al [OF that] by simp
  have other: "fsi_cfam_config_read nx cfam addr 4 = CFAM_CONFIG_CHIP_ID_BREAK"
    if no: "\<forall>k\<le>length ?kids. unat addr \<noteq> 0xC + 4 * k"
  proof (cases "unat addr mod 4 = 0")
    case True
    from aligned_offset [OF assms(1) True]
    obtain k where k: "unat addr = 0xC + 4 * k" ..
    then have "\<not> k \<le> length ?kids" using no by auto
    then show ?thesis using al [OF k] by simp
  next
    case False
    then have "unat (0xc :: c_int) mod 4 \<noteq> unat addr mod 4" by simp
    then show ?thesis unfolding rd by (rule walk_misaligned [OF small])
  qed
  show ?thesis
  proof (intro conjI allI impI)
    fix k assume "k < length ?kids" "unat addr = 0xC + 4 * k"
    then show "fsi_cfam_config_read nx cfam addr 4 =
       (case ?kids ! k of
          Child_scratchpad \<Rightarrow> ucast (config (scratchpad_class cfam))
        | Child_device d \<Rightarrow> ucast (config (klass d)))"
      by (rule engine)
  next
    assume "unat addr = 0xC + 4 * length ?kids"
    then show "fsi_cfam_config_read nx cfam addr 4 = 0" by (rule marker)
  next
    assume "\<forall>k\<le>length ?kids. unat addr \<noteq> 0xC + 4 * k"
    then show "fsi_cfam_config_read nx cfam addr 4 = CFAM_CONFIG_CHIP_ID_BREAK" by (rule other)
  next
    show "\<exists>cfam0. fsi_cfam_realize True (fsi_cfam_instance_init nx) = Some cfam0
            \<and> fsi_cfam_config_read nx cfam0 0x0C 4 = ucast (config (fsi_scratchpad_class_init nx))
            \<and> fsi_cfam_config_read nx cfam0 0x10 4 = 0
            \<and> fsi_cfam_config_read nx cfam0 0x14 4 = CFAM_CONFIG_CHIP_ID_BREAK"
      by (rule config_read_default_cfam)
  qed
qed

theorem config_read_engine_table_witness:
  "fsi_cfam_config_read 0x80000000
     \<lparr>scratchpad_class = fsi_scratchpad_class_init 0x80000000, scratchpad = \<lparr>reg = 0\<rparr>,
      children = [Child_device \<lparr>klass = \<lparr>reset = (\<lambda>u::unit. u), config = 0xAB\<rparr>, inst = ()\<rparr>,
                  Child_scratchpad]\<rparr> 0x0C 4 = 0xAB
   \<and> fsi_cfam_config_read 0x80000000
     \<lparr>scratchpad_class = fsi_scratchpad_class_init 0x80000000, scratchpad = \<lparr>reg = 0\<rparr>,
      children = [Child_device \<lparr>klass = \<lparr>reset = (\<lambda>u::unit. u), config = 0xAB\<rparr>, inst = ()\<rparr>,
                  Child_scratchpad]\<rparr> 0x10 4 = 0x80011067
   \<and> fsi_cfam_config_read 0x80000000
     \<lparr>scratchpad_class = fsi_scratchpad_class_init 0x80000000, scratchpad = \<lparr>reg = 0\<rparr>,
      children = [Child_device \<lparr>klass = \<lparr>reset = (\<lambda>u::unit. u), config = 0xAB\<rparr>, inst = ()\<rparr>,
                  Child_scratchpad]\<rparr> 0x14 4 = 0
   \<and> fsi_cfam_config_read 0x80000000
     \<lparr>scratchpad_class = fsi_scratchpad_class_init 0x80000000, scratchpad = \<lparr>reg = 0\<rparr>,
      children = [Child_device \<lparr>klass = \<lparr>reset = (\<lambda>u::unit. u), config = 0xAB\<rparr>, inst = ()\<rparr>,
                  Child_scratchpad]\<rparr> 0x18 4 = 0xc0de0000
   \<and> fsi_cfam_config_read 0x80000000
     \<lparr>scratchpad_class = fsi_scratchpad_class_init 0x80000000, scratchpad = \<lparr>reg = 0\<rparr>,
      children = [Child_device \<lparr>klass = \<lparr>reset = (\<lambda>u::unit. u), config = 0xAB\<rparr>, inst = ()\<rparr>,
                  Child_scratchpad]\<rparr> 0x0E 4 = 0xc0de0000"
proof -
  let ?c = "\<lparr>scratchpad_class = fsi_scratchpad_class_init 0x80000000, scratchpad = \<lparr>reg = 0\<rparr>,
      children = [Child_device \<lparr>klass = \<lparr>reset = (\<lambda>u::unit. u), config = 0xAB\<rparr>, inst = ()\<rparr>,
                  Child_scratchpad]\<rparr>"
  have cfg: "ucast (config (fsi_scratchpad_class_init 0x80000000)) = (0x80011067 :: u64)"
    by (simp add: fsi_scratchpad_class_init_def ENGINE_CONFIG_TYPE_SCRATCHPAD_def)
  have z: "0xC \<le> unat (0x0C::hwaddr)" "unat (0x0C::hwaddr) < 0x400" by simp_all
  have a: "0xC \<le> unat (0x10::hwaddr)" "unat (0x10::hwaddr) < 0x400" by simp_all
  have b: "0xC \<le> unat (0x14::hwaddr)" "unat (0x14::hwaddr) < 0x400" by simp_all
  have c: "0xC \<le> unat (0x18::hwaddr)" "unat (0x18::hwaddr) < 0x400" by simp_all
  have e: "0xC \<le> unat (0x0E::hwaddr)" "unat (0x0E::hwaddr) < 0x400" by simp_all
  have "0 < length (children ?c) \<and> unat (0x0C::hwaddr) = 0xC + 4 * 0" by simp
  with config_read_engine_table [OF z, of ?c "0x80000000"]
  have "fsi_cfam_config_read 0x80000000 ?c 0x0C 4 =
      (case children ?c ! 0 of
         Child_scratchpad \<Rightarrow> ucast (config (scratchpad_class ?c))
       | Child_device d \<Rightarrow> ucast (config (klass d)))"
    by blast
  then have r0: "fsi_cfam_config_read 0x80000000 ?c 0x0C 4 = 0xAB"
    by simp
  have "1 < length (children ?c) \<and> unat (0x10::hwaddr) = 0xC + 4 * 1" by simp
  with config_read_engine_table [OF a, of ?c "0x80000000"]
  have "fsi_cfam_config_read 0x80000000 ?c 0x10 4 =
      (case children ?c ! 1 of
         Child_scratchpad \<Rightarrow> ucast (config (scratchpad_class ?c))
       | Child_device d \<Rightarrow> ucast (config (klass d)))"
    by blast
  then have r1: "fsi_cfam_config_read 0x80000000 ?c 0x10 4 = 0x80011067"
    by (simp add: cfg)
  have "unat (0x14::hwaddr) = 0xC + 4 * length (children ?c)" by simp
  with config_read_engine_table [OF b, of ?c "0x80000000"]
  have r2: "fsi_cfam_config_read 0x80000000 ?c 0x14 4 = 0"
    by blast
  have "\<forall>k\<le>length (children ?c). unat (0x18::hwaddr) \<noteq> 0xC + 4 * k" by simp
  with config_read_engine_table [OF c, of ?c "0x80000000"]
  have "fsi_cfam_config_read 0x80000000 ?c 0x18 4 = CFAM_CONFIG_CHIP_ID_BREAK"
    by blast
  then have r3: "fsi_cfam_config_read 0x80000000 ?c 0x18 4 = 0xc0de0000"
    by (simp add: CFAM_CONFIG_CHIP_ID_BREAK_def)
  have "\<forall>k\<le>length (children ?c). unat (0x0E::hwaddr) \<noteq> 0xC + 4 * k" by simp
  with config_read_engine_table [OF e, of ?c "0x80000000"]
  have "fsi_cfam_config_read 0x80000000 ?c 0x0E 4 = CFAM_CONFIG_CHIP_ID_BREAK"
    by blast
  then have r4: "fsi_cfam_config_read 0x80000000 ?c 0x0E 4 = 0xc0de0000"
    by (simp add: CFAM_CONFIG_CHIP_ID_BREAK_def)
  from r0 r1 r2 r3 r4 show ?thesis by (intro conjI)
qed

subsection \<open>The fixed words of the configuration region\<close>

text \<open>
  C6. In every state of the CFAM, whatever engines are attached and whatever was written
  before, a configuration read at byte address 0x00 returns the chip identity constant,
  a read at 0x04 the descriptor of the PEEK pseudo-engine and a read at 0x08 the
  descriptor of the FSI pseudo-engine: the continuation flag \<open>nx\<close> with the fixed slot,
  version, type and integrity fields. The same holds after any sequence of handler calls.
\<close>

theorem config_read_fixed_words:
  "fsi_cfam_config_read nx cfam 0x00 sz = 0xc0022d15
   \<and> fsi_cfam_config_read nx cfam 0x04 sz = (nx OR 0x0001102c)
   \<and> fsi_cfam_config_read nx cfam 0x08 sz = (nx OR 0x0001503a)
   \<and> fsi_cfam_config_read nx (run nx cs cfam) 0x00 sz = fsi_cfam_config_read nx cfam 0x00 sz
   \<and> fsi_cfam_config_read nx (run nx cs cfam) 0x04 sz = fsi_cfam_config_read nx cfam 0x04 sz
   \<and> fsi_cfam_config_read nx (run nx cs cfam) 0x08 sz = fsi_cfam_config_read nx cfam 0x08 sz"
proof -
  have peek: "nx OR 0x00010000 OR 0x00001000 OR ENGINE_CONFIG_TYPE_PEEK OR 0x0000000c
      = nx OR 0x0001102c"
    by (simp add: ENGINE_CONFIG_TYPE_PEEK_def or.assoc)
  have fsi: "nx OR 0x00010000 OR 0x00005000 OR ENGINE_CONFIG_TYPE_FSI OR 0x0000000a
      = nx OR 0x0001503a"
    by (simp add: ENGINE_CONFIG_TYPE_FSI_def or.assoc)
  show ?thesis
    by (simp add: fsi_cfam_config_read_def CFAM_CONFIG_CHIP_ID_P9_def peek fsi)
qed

subsection \<open>Writes to the configuration region\<close>

lemma run_append: "run nx (xs @ ys) cfam = run nx ys (run nx xs cfam)"
  by (induction xs arbitrary: cfam) simp_all

lemma to_reg_values:
  "TO_REG 0x00 = CFAM_CONFIG_CHIP_ID" "TO_REG 0x10 = CFAM_CONFIG_CHIP_ID + 4"
  "TO_REG 0x04 \<noteq> CFAM_CONFIG_CHIP_ID" "TO_REG 0x04 \<noteq> CFAM_CONFIG_CHIP_ID + 4"
  by (simp_all add: TO_REG_def CFAM_CONFIG_CHIP_ID_def)

text \<open>
  The reset branch of \<^verbatim>\<open>fsi_cfam_config_write\<close> in byte addresses: the register units 0
  and 4 are the bytes 0x00 to 0x03 and 0x10 to 0x13.
\<close>

lemma to_reg_unat: "unat (TO_REG addr) = unat addr div 4"
proof -
  have "unat (drop_bit 2 addr) = drop_bit 2 (unat addr)" by (rule unat_drop_bit_eq)
  also have "\<dots> = unat addr div 2 ^ 2" by (rule drop_bit_eq_div)
  finally show ?thesis by (simp add: TO_REG_def)
qed

lemma to_reg_chip_id: "(TO_REG addr = CFAM_CONFIG_CHIP_ID) = (unat addr < 4)"
proof -
  have "(TO_REG addr = CFAM_CONFIG_CHIP_ID) = (unat (TO_REG addr) = 0)"
    by (simp add: CFAM_CONFIG_CHIP_ID_def TO_REG_def unat_eq_0)
  also have "\<dots> = (unat addr div 4 = 0)" by (simp only: to_reg_unat)
  also have "\<dots> = (unat addr < 4)" by presburger
  finally show ?thesis .
qed

lemma to_reg_chip_id_plus_4:
  "(TO_REG addr = CFAM_CONFIG_CHIP_ID + 4) = (16 \<le> unat addr \<and> unat addr < 20)"
proof -
  have "(TO_REG addr = CFAM_CONFIG_CHIP_ID + 4) = (unat (TO_REG addr) = unat (4 :: hwaddr))"
    by (simp only: word_unat_eq_iff) (simp add: CFAM_CONFIG_CHIP_ID_def TO_REG_def)
  also have "\<dots> = (unat addr div 4 = 4)" by (simp add: to_reg_unat)
  also have "\<dots> = (16 \<le> unat addr \<and> unat addr < 20)" by presburger
  finally show ?thesis .
qed

lemma config_write_reset_condition:
  "fsi_cfam_config_write cfam addr data sz =
     (if (unat addr < 4 \<or> (16 \<le> unat addr \<and> unat addr < 20)) \<and> data = 0xc0de0000
      then bus_cold_reset cfam else cfam)"
  by (simp add: fsi_cfam_config_write_def to_reg_chip_id to_reg_chip_id_plus_4
      CFAM_CONFIG_CHIP_ID_BREAK_def)

text \<open>
  C2. Stated: a 4-byte configuration write resets the local bus exactly when the byte
  address is 0x00 or 0x04 and the data is the break sentinel, and changes nothing
  otherwise. The switch of \<^verbatim>\<open>fsi_cfam_config_write\<close> is over \<^verbatim>\<open>TO_REG(addr)\<close>, and its
  second label \<^verbatim>\<open>CFAM_CONFIG_CHIP_ID + 4\<close> adds 4 to a register index: it is register
  unit 4, byte address 0x10, not byte address 0x04 (register unit 1). The code evaluated
  on a CFAM whose scratchpad holds 5: the sentinel written at 0x04 leaves the state as it
  is, where a reset is stated; written at 0x00 and at 0x10 it resets the scratchpad,
  where for 0x10 no effect is stated.
\<close>

theorem config_write_break_at_0x04:
  "fsi_cfam_config_write
      \<lparr>scratchpad_class = fsi_scratchpad_class_init nx, scratchpad = \<lparr>reg = 5\<rparr>,
       children = [Child_scratchpad]\<rparr> 0x04 0xc0de0000 4
     = \<lparr>scratchpad_class = fsi_scratchpad_class_init nx, scratchpad = \<lparr>reg = 5\<rparr>,
       children = [Child_scratchpad]\<rparr>
   \<and> fsi_cfam_config_write
      \<lparr>scratchpad_class = fsi_scratchpad_class_init nx, scratchpad = \<lparr>reg = 5\<rparr>,
       children = [Child_scratchpad]\<rparr> 0x00 0xc0de0000 4
     = \<lparr>scratchpad_class = fsi_scratchpad_class_init nx, scratchpad = \<lparr>reg = 0\<rparr>,
       children = [Child_scratchpad]\<rparr>
   \<and> fsi_cfam_config_write
      \<lparr>scratchpad_class = fsi_scratchpad_class_init nx, scratchpad = \<lparr>reg = 5\<rparr>,
       children = [Child_scratchpad]\<rparr> 0x10 0xc0de0000 4
     = \<lparr>scratchpad_class = fsi_scratchpad_class_init nx, scratchpad = \<lparr>reg = 0\<rparr>,
       children = [Child_scratchpad]\<rparr>"
  by (simp add: to_reg_values fsi_cfam_config_write_def CFAM_CONFIG_CHIP_ID_BREAK_def
      bus_cold_reset_def fsi_scratchpad_class_init_def fsi_scratchpad_reset_def)

text \<open>
  C3. A 4-byte configuration write of the break sentinel 0xc0de0000 at byte address 0x10,
  which is register unit \<^verbatim>\<open>CFAM_CONFIG_CHIP_ID + 4\<close>, is a cold reset of the local bus,
  in every state; and in a CFAM as constructed, with the scratchpad as its only engine, a
  read at that same address 0x10 returns the end-of-table marker 0.
\<close>

theorem config_write_break_at_0x10:
  "TO_REG 0x10 = CFAM_CONFIG_CHIP_ID + 4
   \<and> fsi_cfam_config_write cfam 0x10 0xc0de0000 4 = bus_cold_reset cfam
   \<and> (\<exists>cfam0. fsi_cfam_realize True (fsi_cfam_instance_init nx) = Some cfam0
        \<and> fsi_cfam_config_read nx cfam0 0x10 4 = 0
        \<and> fsi_cfam_config_write cfam0 0x10 0xc0de0000 4 = bus_cold_reset cfam0)"
  by (simp add: to_reg_values fsi_cfam_config_write_def CFAM_CONFIG_CHIP_ID_BREAK_def
      realize_default fsi_cfam_config_read_def)

subsection \<open>The break write and the scratchpad\<close>

lemma exec_default_inv:
  assumes "children cfam = [Child_scratchpad]" "scratchpad_class cfam = K"
  shows "children (snd (exec nx c cfam)) = [Child_scratchpad]
       \<and> scratchpad_class (snd (exec nx c cfam)) = K"
  using assms
  by (cases c)
     (simp_all add: fsi_cfam_config_write_def bus_cold_reset_def fsi_cfam_unimplemented_write_def)

lemma run_default_inv:
  assumes "children cfam = [Child_scratchpad]" "scratchpad_class cfam = K"
  shows "children (run nx cs cfam) = [Child_scratchpad] \<and> scratchpad_class (run nx cs cfam) = K"
  using assms
proof (induction cs arbitrary: cfam)
  case Nil
  then show ?case by simp
next
  case (Cons c cs)
  from exec_default_inv [OF Cons.prems, of nx c]
  have "children (snd (exec nx c cfam)) = [Child_scratchpad]"
    and "scratchpad_class (snd (exec nx c cfam)) = K" by simp_all
  then have "children (run nx cs (snd (exec nx c cfam))) = [Child_scratchpad]
     \<and> scratchpad_class (run nx cs (snd (exec nx c cfam))) = K"
    by (rule Cons.IH)
  then show ?case by simp
qed

lemma break_write_default:
  assumes "children cfam = [Child_scratchpad]"
    and "scratchpad_class cfam = fsi_scratchpad_class_init nx"
  shows "fsi_cfam_config_write cfam 0x00 CFAM_CONFIG_CHIP_ID_BREAK 4 = cfam\<lparr>scratchpad := \<lparr>reg = 0\<rparr>\<rparr>"
  using assms
  by (simp add: fsi_cfam_config_write_def to_reg_values bus_cold_reset_def
      fsi_scratchpad_class_init_def fsi_scratchpad_reset_def)

text \<open>
  C4. In a CFAM as constructed, after any sequence of handler calls: when a value \<open>v\<close> is
  written to the scratchpad at offset 0, a read at offset 0 returns it (its low 32 bits);
  when the break sentinel is then written to the configuration region at 0x00, a read of
  the scratchpad at offset 0 returns 0.
\<close>

theorem break_write_resets_scratchpad:
  "\<exists>cfam0 :: 's FSICFAMState. fsi_cfam_realize True (fsi_cfam_instance_init nx) = Some cfam0
     \<and> (\<forall>cs v sz sz'.
          fst (exec nx (Scratchpad_read 0 sz')
                (run nx (cs @ [Scratchpad_write 0 v sz]) cfam0)) = Some (ucast (ucast v :: u32))
        \<and> fst (exec nx (Scratchpad_read 0 sz')
                (run nx (cs @ [Scratchpad_write 0 v sz,
                               Config_write 0x00 CFAM_CONFIG_CHIP_ID_BREAK 4]) cfam0)) = Some 0)"
proof -
  let ?c0 = "\<lparr>scratchpad_class = fsi_scratchpad_class_init nx, scratchpad = \<lparr>reg = 0\<rparr>,
           children = [Child_scratchpad]\<rparr> :: 's FSICFAMState"
  have inv: "children (run nx cs ?c0) = [Child_scratchpad]
      \<and> scratchpad_class (run nx cs ?c0) = fsi_scratchpad_class_init nx" for cs
    by (rule run_default_inv) simp_all
  have wr: "fst (exec nx (Scratchpad_read 0 sz')
                (run nx (cs @ [Scratchpad_write 0 v sz]) ?c0)) = Some (ucast (ucast v :: u32))"
    for cs v sz sz'
    by (simp add: run_append fsi_scratchpad_read_def fsi_scratchpad_write_def)
  have rs: "fst (exec nx (Scratchpad_read 0 sz')
                (run nx (cs @ [Scratchpad_write 0 v sz,
                               Config_write 0x00 CFAM_CONFIG_CHIP_ID_BREAK 4]) ?c0)) = Some 0"
    for cs v sz sz'
  proof -
    let ?s = "run nx (cs @ [Scratchpad_write 0 v sz]) ?c0"
    have "run nx (cs @ [Scratchpad_write 0 v sz, Config_write 0x00 CFAM_CONFIG_CHIP_ID_BREAK 4]) ?c0
        = fsi_cfam_config_write ?s 0x00 CFAM_CONFIG_CHIP_ID_BREAK 4"
      by (simp add: run_append)
    also have "\<dots> = ?s\<lparr>scratchpad := \<lparr>reg = 0\<rparr>\<rparr>"
      using inv [of "cs @ [Scratchpad_write 0 v sz]"] by (intro break_write_default) simp_all
    finally show ?thesis by (simp add: fsi_scratchpad_read_def)
  qed
  show ?thesis using wr rs realize_default [of nx] by blast
qed

text \<open>
  C5. In every state that a CFAM as constructed reaches by a sequence of handler calls,
  writing the break sentinel at 0x00 twice in succession leaves the same state as writing
  it once.
\<close>

theorem break_write_idempotent:
  "\<exists>cfam0 :: 's FSICFAMState. fsi_cfam_realize True (fsi_cfam_instance_init nx) = Some cfam0
     \<and> (\<forall>cs. run nx (cs @ [Config_write 0x00 CFAM_CONFIG_CHIP_ID_BREAK 4,
                            Config_write 0x00 CFAM_CONFIG_CHIP_ID_BREAK 4]) cfam0
             = run nx (cs @ [Config_write 0x00 CFAM_CONFIG_CHIP_ID_BREAK 4]) cfam0)"
proof -
  let ?c0 = "\<lparr>scratchpad_class = fsi_scratchpad_class_init nx, scratchpad = \<lparr>reg = 0\<rparr>,
           children = [Child_scratchpad]\<rparr> :: 's FSICFAMState"
  have "run nx (cs @ [Config_write 0x00 CFAM_CONFIG_CHIP_ID_BREAK 4,
                            Config_write 0x00 CFAM_CONFIG_CHIP_ID_BREAK 4]) ?c0
             = run nx (cs @ [Config_write 0x00 CFAM_CONFIG_CHIP_ID_BREAK 4]) ?c0" for cs
  proof -
    let ?s = "run nx cs ?c0"
    have inv: "children ?s = [Child_scratchpad]"
       "scratchpad_class ?s = fsi_scratchpad_class_init nx"
      using run_default_inv [of ?c0 "fsi_scratchpad_class_init nx" nx cs] by simp_all
    have once: "fsi_cfam_config_write ?s 0x00 CFAM_CONFIG_CHIP_ID_BREAK 4 = ?s\<lparr>scratchpad := \<lparr>reg = 0\<rparr>\<rparr>"
      using inv by (rule break_write_default)
    have twice: "fsi_cfam_config_write (?s\<lparr>scratchpad := \<lparr>reg = 0\<rparr>\<rparr>) 0x00 CFAM_CONFIG_CHIP_ID_BREAK 4
        = ?s\<lparr>scratchpad := \<lparr>reg = 0\<rparr>\<rparr>"
      using inv by (subst break_write_default) simp_all
    show ?thesis by (simp add: run_append once twice)
  qed
  then show ?thesis using realize_default [of nx] by blast
qed

subsection \<open>The scratchpad register\<close>

lemma exec_keeps_scratchpad:
  assumes "\<not> clobbers_scratchpad c"
  shows "scratchpad (snd (exec nx c cfam)) = scratchpad cfam"
  using assms
  by (cases c)
     (auto simp add: fsi_cfam_config_write_def fsi_cfam_unimplemented_write_def
        fsi_scratchpad_write_def)

lemma run_keeps_scratchpad:
  assumes "list_all (\<lambda>c. \<not> clobbers_scratchpad c) cs"
  shows "scratchpad (run nx cs cfam) = scratchpad cfam"
  using assms
proof (induction cs arbitrary: cfam)
  case Nil
  then show ?case by simp
next
  case (Cons c cs)
  then have "scratchpad (run nx cs (snd (exec nx c cfam))) = scratchpad (snd (exec nx c cfam))"
    by simp
  also have "\<dots> = scratchpad cfam"
    using Cons.prems by (simp add: exec_keeps_scratchpad)
  finally show ?case by simp
qed

lemma ucast_32_64_32: "(ucast (ucast (X :: u32) :: u64) :: u32) = X"
  by (rule ucast_up_ucast_id) (simp add: is_up)

text \<open>
  C7. For every 32-bit value \<open>X\<close>: after \<open>X\<close> is written to the scratchpad at offset 0, a read
  at offset 0 returns \<open>X\<close>, at once and after any further handler calls none of which is
  a scratchpad write at offset 0 or a configuration write that takes the reset branch.
\<close>

theorem scratchpad_round_trip:
  assumes "list_all (\<lambda>c. \<not> clobbers_scratchpad c) cs"
  shows "fst (exec nx (Scratchpad_read 0 sz')
                (run nx (Scratchpad_write 0 (ucast (X :: u32)) sz # cs) cfam)) = Some (ucast X)"
proof -
  have "scratchpad (run nx (Scratchpad_write 0 (ucast X) sz # cs) cfam)
      = fsi_scratchpad_write (scratchpad cfam) 0 (ucast X) sz"
    by (simp add: run_keeps_scratchpad [OF assms])
  then show ?thesis
    by (simp add: fsi_scratchpad_read_def fsi_scratchpad_write_def ucast_32_64_32)
qed

theorem scratchpad_round_trip_witness:
  "fst (exec 0x80000000 (Scratchpad_read 0 4)
     (run 0x80000000
        (Scratchpad_write 0 (ucast (0xdeadbeef :: u32)) 4 #
           [Config_read 0x0C 4, Config_write 0x04 0xc0de0000 4, Config_write 0x00 7 4,
            Scratchpad_write 0x08 0x1234 4, Scratchpad_read 0 4, Unimplemented_write 0x500 1 4])
        \<lparr>scratchpad_class = fsi_scratchpad_class_init 0x80000000, scratchpad = \<lparr>reg = 0\<rparr>,
         children = [Child_scratchpad :: unit BusChild]\<rparr>)) = Some 0xdeadbeef"
proof -
  have "list_all (\<lambda>c. \<not> clobbers_scratchpad c)
     [Config_read 0x0C 4, Config_write 0x04 0xc0de0000 4, Config_write 0x00 7 4,
      Scratchpad_write 0x08 0x1234 4, Scratchpad_read 0 4, Unimplemented_write 0x500 1 4]"
    by (simp add: to_reg_values CFAM_CONFIG_CHIP_ID_BREAK_def)
  from scratchpad_round_trip [OF this, where nx = "0x80000000" and sz' = 4
      and X = "0xdeadbeef" and sz = 4
      and cfam = "\<lparr>scratchpad_class = fsi_scratchpad_class_init 0x80000000,
         scratchpad = \<lparr>reg = 0\<rparr>, children = [Child_scratchpad :: unit BusChild]\<rparr>"]
  show ?thesis by simp
qed

text \<open>
  C8. At every offset other than 0, a scratchpad read returns 0 and a scratchpad write,
  whatever its data, leaves the register as it is; neither changes anything else of the
  state.
\<close>

theorem scratchpad_other_offsets:
  assumes "addr \<noteq> 0"
  shows "fsi_scratchpad_read s addr sz = 0
       \<and> fsi_scratchpad_write s addr data sz = s
       \<and> exec nx (Scratchpad_read addr sz) cfam = (Some 0, cfam)
       \<and> exec nx (Scratchpad_write addr data sz) cfam = (None, cfam)"
  using assms by (simp add: fsi_scratchpad_read_def fsi_scratchpad_write_def)

theorem scratchpad_other_offsets_witness:
  "fsi_scratchpad_read \<lparr>reg = 0x1234\<rparr> 0x04 4 = 0
   \<and> fsi_scratchpad_write \<lparr>reg = 0x1234\<rparr> 0x04 0xffff 4 = \<lparr>reg = 0x1234\<rparr>"
proof -
  have "(0x04 :: hwaddr) \<noteq> 0" by simp
  from scratchpad_other_offsets [OF this, where s = "\<lparr>reg = 0x1234\<rparr>" and sz = 4
      and data = "0xffff" and nx = 0
      and cfam = "\<lparr>scratchpad_class = fsi_scratchpad_class_init 0, scratchpad = \<lparr>reg = 0\<rparr>,
         children = [Child_scratchpad :: unit BusChild]\<rparr>"]
  show ?thesis by simp
qed

subsection \<open>Offsets that no region claims\<close>

text \<open>
  C9. For every byte offset \<open>a\<close> of the 2 MiB window outside \<open>[0, 0x400)\<close>,
  \<open>[0x800, 0x800 + W)\<close> and \<open>[0xC00, 0xC00 + X)\<close>, the access goes to the fallback
  handlers: a read returns 0 and a write, whatever its data, leaves the state as it is.
\<close>

theorem unclaimed_offsets:
  assumes "unat a < 2 * 1024 * 1024"
    and "unat a \<notin> {0 ..< 0x400} \<union> {0x800 ..< 0x800 + W} \<union> {0xC00 ..< 0xC00 + X}"
  shows "cfam_route W X a = Some (To_unimplemented a)
       \<and> cfam_read nx W X cfam a sz = Some (Some 0, cfam)
       \<and> cfam_write nx W X cfam a data sz = Some (None, cfam)"
proof -
  have r: "cfam_route W X a = Some (To_unimplemented a)"
    using assms by (simp add: cfam_route_def)
  show ?thesis
    by (simp add: r cfam_read_def cfam_write_def fsi_cfam_unimplemented_read_def
        fsi_cfam_unimplemented_write_def)
qed

theorem unclaimed_offsets_witness:
  "cfam_read 0x80000000 0x400 0x400
      \<lparr>scratchpad_class = fsi_scratchpad_class_init 0x80000000, scratchpad = \<lparr>reg = 5\<rparr>,
       children = [Child_scratchpad :: unit BusChild]\<rparr> 0x500 4
     = Some (Some 0, \<lparr>scratchpad_class = fsi_scratchpad_class_init 0x80000000,
                      scratchpad = \<lparr>reg = 5\<rparr>, children = [Child_scratchpad]\<rparr>)
   \<and> cfam_write 0x80000000 0x400 0x400
      \<lparr>scratchpad_class = fsi_scratchpad_class_init 0x80000000, scratchpad = \<lparr>reg = 5\<rparr>,
       children = [Child_scratchpad :: unit BusChild]\<rparr> 0x500 0xc0de0000 4
     = Some (None, \<lparr>scratchpad_class = fsi_scratchpad_class_init 0x80000000,
                    scratchpad = \<lparr>reg = 5\<rparr>, children = [Child_scratchpad]\<rparr>)"
proof -
  have a: "unat (0x500 :: hwaddr) < 2 * 1024 * 1024" by simp
  have b: "unat (0x500 :: hwaddr) \<notin> {0 ..< 0x400} \<union> {0x800 ..< 0x800 + 0x400}
      \<union> {0xC00 ..< 0xC00 + 0x400}" by simp
  from unclaimed_offsets [OF a b, where nx = "0x80000000" and sz = 4 and data = "0xc0de0000"
      and cfam = "\<lparr>scratchpad_class = fsi_scratchpad_class_init 0x80000000,
         scratchpad = \<lparr>reg = 5\<rparr>, children = [Child_scratchpad :: unit BusChild]\<rparr>"]
  show ?thesis by simp
qed

subsection \<open>The engine list and the descriptors are read-only\<close>

lemma engine_class_of_device_reset: "engine_class_of (device_reset kid) = engine_class_of kid"
  by (cases kid) simp_all

lemma lbus_device_config_by_class:
  "lbus_device_config cfam kid =
     (case engine_class_of kid of None \<Rightarrow> config (scratchpad_class cfam) | Some c \<Rightarrow> config c)"
  by (cases kid) simp_all

lemma exec_keeps_engines:
  "map engine_class_of (children (snd (exec nx c cfam))) = map engine_class_of (children cfam)
   \<and> scratchpad_class (snd (exec nx c cfam)) = scratchpad_class cfam"
  by (cases c)
     (simp_all add: fsi_cfam_config_write_def bus_cold_reset_def fsi_cfam_unimplemented_write_def
        engine_class_of_device_reset comp_def)

lemma run_keeps_engines:
  "map engine_class_of (children (run nx cs cfam)) = map engine_class_of (children cfam)
   \<and> scratchpad_class (run nx cs cfam) = scratchpad_class cfam"
proof (induction cs arbitrary: cfam)
  case Nil
  show ?case by simp
next
  case (Cons c cs)
  show ?case using Cons.IH [of "snd (exec nx c cfam)"] exec_keeps_engines [of nx c cfam]
    by simp
qed

text \<open>
  C10. No sequence of handler calls (configuration, scratchpad and fallback reads and
  writes, at any address and with any data) changes the number or the order of the
  children of the local bus, the class of any of them, the class of the scratchpad, or
  the descriptor word any of them shows in the configuration table. In a CFAM as
  constructed the state after the calls differs from the constructed one in the value of
  the scratchpad register at most.
\<close>

theorem engines_and_descriptors_unchanged:
  "length (children (run nx cs cfam)) = length (children cfam)
   \<and> map engine_class_of (children (run nx cs cfam)) = map engine_class_of (children cfam)
   \<and> scratchpad_class (run nx cs cfam) = scratchpad_class cfam
   \<and> map (lbus_device_config (run nx cs cfam)) (children (run nx cs cfam))
       = map (lbus_device_config cfam) (children cfam)
   \<and> (\<exists>cfam0 :: 's FSICFAMState.
         fsi_cfam_realize True (fsi_cfam_instance_init nx) = Some cfam0
         \<and> (\<exists>r. run nx cs cfam0 = cfam0\<lparr>scratchpad := \<lparr>reg = r\<rparr>\<rparr>))"
proof -
  let ?s = "run nx cs cfam"
  have e: "map engine_class_of (children ?s) = map engine_class_of (children cfam)"
    and k: "scratchpad_class ?s = scratchpad_class cfam"
    using run_keeps_engines [of nx cs cfam] by simp_all
  have len: "length (children ?s) = length (children cfam)"
    using e by (rule map_eq_imp_length_eq)
  let ?h = "\<lambda>oc. case oc of None \<Rightarrow> config (scratchpad_class cfam) | Some c \<Rightarrow> config c"
  have "map (lbus_device_config ?s) (children ?s) = map ?h (map engine_class_of (children ?s))"
    by (simp add: lbus_device_config_by_class k comp_def cong: option.case_cong)
  also have "\<dots> = map ?h (map engine_class_of (children cfam))" by (simp only: e)
  also have "\<dots> = map (lbus_device_config cfam) (children cfam)"
    by (simp add: lbus_device_config_by_class comp_def)
  finally have cfg: "map (lbus_device_config ?s) (children ?s)
       = map (lbus_device_config cfam) (children cfam)" .
  let ?c0 = "\<lparr>scratchpad_class = fsi_scratchpad_class_init nx, scratchpad = \<lparr>reg = 0\<rparr>,
           children = [Child_scratchpad]\<rparr> :: 's FSICFAMState"
  have inv: "children (run nx cs ?c0) = [Child_scratchpad]
      \<and> scratchpad_class (run nx cs ?c0) = fsi_scratchpad_class_init nx"
    by (rule run_default_inv) simp_all
  have "run nx cs ?c0 = ?c0\<lparr>scratchpad := \<lparr>reg = reg (scratchpad (run nx cs ?c0))\<rparr>\<rparr>"
    using inv by (cases "run nx cs ?c0") simp
  then have "\<exists>r. run nx cs ?c0 = ?c0\<lparr>scratchpad := \<lparr>reg = r\<rparr>\<rparr>" ..
  then have dflt: "\<exists>cfam0 :: 's FSICFAMState.
         fsi_cfam_realize True (fsi_cfam_instance_init nx) = Some cfam0
         \<and> (\<exists>r. run nx cs cfam0 = cfam0\<lparr>scratchpad := \<lparr>reg = r\<rparr>\<rparr>)"
    using realize_default [of nx] by blast
  from len e k cfg dflt show ?thesis by (intro conjI)
qed

end
